theory Spec2Isabelle
  imports Complex_Main "HOL-Library.Sublist" "HOL-Library.Log_Nat"
begin

section \<open>Data model\<close>

text \<open>
  The script \<^verbatim>\<open>seance-1/index.js\<close> works on arrays of endorsement objects decoded
  from JSON. Every field the script reads is a string. JavaScript strings are modelled
  as HOL strings (one \<open>char\<close> per code unit), arrays as lists.
\<close>

record endorsement =
  name :: string
  civility :: string
  mandate :: string
  constituency :: string
  candidate :: string

section \<open>Array and string built-ins used by the script\<close>

text \<open>
  \<^verbatim>\<open>Array.prototype.filter\<close>, \<^verbatim>\<open>map\<close> and \<^verbatim>\<open>length\<close> are the list functions
  \<open>filter\<close>, \<open>map\<close> and \<open>length\<close>. \<^verbatim>\<open>Array.prototype.reduce(f, init)\<close> visits the
  elements from index 0 upwards and threads the accumulator through the callback.
\<close>

fun reduce :: "('b \<Rightarrow> 'a \<Rightarrow> 'b) \<Rightarrow> 'b \<Rightarrow> 'a list \<Rightarrow> 'b" where
  "reduce f acc [] = acc"
| "reduce f acc (d # ds) = reduce f (f acc d) ds"

text \<open>
  \<^verbatim>\<open>Array.prototype.find(p)\<close> returns the first element that satisfies the predicate,
  or \<^verbatim>\<open>undefined\<close> (here \<open>None\<close>) when there is none.
\<close>

fun find_js :: "('a \<Rightarrow> bool) \<Rightarrow> 'a list \<Rightarrow> 'a option" where
  "find_js p [] = None"
| "find_js p (e # es) = (if p e then Some e else find_js p es)"

text \<open>
  \<^verbatim>\<open>String.prototype.includes(t)\<close>: is there a position of \<open>s\<close> at which \<open>t\<close> starts?
  The comparison is on code units, so it is case-sensitive.
\<close>

fun starts_with :: "string \<Rightarrow> string \<Rightarrow> bool" where
  "starts_with s [] = True"
| "starts_with [] (c # t) = False"
| "starts_with (b # s) (c # t) = (b = c \<and> starts_with s t)"

fun includes_js :: "string \<Rightarrow> string \<Rightarrow> bool" where
  "includes_js [] t = starts_with [] t"
| "includes_js (b # s) t = (if starts_with (b # s) t then True else includes_js s t)"

text \<open>
  \<^verbatim>\<open>new Set(iterable)\<close> adds the elements one after the other; \<^verbatim>\<open>Set.prototype.add\<close>
  leaves the set as it is when the value is already a member and appends it otherwise,
  so that iteration (the spread \<^verbatim>\<open>[...set]\<close>) yields the members in the order of their
  first insertion. A set is represented by that list of members.
\<close>

definition Set_add :: "'a list \<Rightarrow> 'a \<Rightarrow> 'a list" where
  "Set_add s x = (if x \<in> set s then s else s @ [x])"

fun new_Set_from :: "'a list \<Rightarrow> 'a list \<Rightarrow> 'a list" where
  "new_Set_from s [] = s"
| "new_Set_from s (x # xs) = new_Set_from (Set_add s x) xs"

definition new_Set :: "'a list \<Rightarrow> 'a list" where
  "new_Set xs = new_Set_from [] xs"

section \<open>Numbers\<close>

text \<open>
  JavaScript numbers are IEEE 754 doubles: every arithmetic operation returns the double
  nearest to the exact result, ties going to the neighbour with an even significand. A
  finite double is modelled by the rational number it denotes, the special values by
  constructors of their own, so that \<^verbatim>\<open>0 / 0\<close> is \<open>NaN\<close> and not a number.
\<close>

datatype jsnum = Num rat | PosInf | NegInf | NaN

text \<open>
  \<open>binary64 q\<close> is the double nearest to the rational \<open>q\<close>: a multiple of the unit in the
  last place of \<open>q\<close>, which is \<open>2 ^ (e - 52)\<close> when \<open>2 ^ e \<le> \<bar>q\<bar> < 2 ^ (e + 1)\<close>, so that the
  significand has 53 bits. The exponent \<open>e\<close> is found from the bit lengths of the numerator
  and of the denominator. The limited range of the exponent of a double (overflow to
  infinity, subnormal numbers) is not modelled: the quotient of two array lengths is 0 or
  lies between \<open>2 ^ - 32\<close> and \<open>2 ^ 32\<close>, far from both ends.
\<close>

definition pow2 :: "int \<Rightarrow> rat" where
  "pow2 e = (if 0 \<le> e then 2 ^ nat e else 1 / 2 ^ nat (- e))"

definition exponent :: "rat \<Rightarrow> int" where
  "exponent q =
     (case quotient_of q of
        (a, b) \<Rightarrow> (let e = bitlen a - bitlen b in if pow2 e \<le> q then e else e - 1))"

definition round_half_even :: "rat \<Rightarrow> int" where
  "round_half_even x =
     (let f = \<lfloor>x\<rfloor>; d = x - of_int f
      in if d < 1 / 2 then f else if 1 / 2 < d then f + 1 else if even f then f else f + 1)"

definition binary64 :: "rat \<Rightarrow> rat" where
  "binary64 q =
     (if q = 0 then 0
      else (let ulp = pow2 (exponent \<bar>q\<bar> - 52)
            in sgn q * of_int (round_half_even (\<bar>q\<bar> / ulp)) * ulp))"

text \<open>
  Arithmetic without rounding, for statements that are made about exact rational
  arithmetic in place of floating point.
\<close>

definition exact :: "rat \<Rightarrow> rat" where
  "exact q = q"

text \<open>
  The operators take the rounding as their first argument: \<open>binary64\<close> is what the script
  runs on.

  \<^verbatim>\<open>a / b\<close> for two array lengths (non-negative integers).
\<close>

definition js_div :: "(rat \<Rightarrow> rat) \<Rightarrow> nat \<Rightarrow> nat \<Rightarrow> jsnum" where
  "js_div rnd a b =
     (if b = 0 then (if a = 0 then NaN else PosInf) else Num (rnd (of_nat a / of_nat b)))"

text \<open>\<^verbatim>\<open>x * k\<close> for a finite constant \<open>k\<close>.\<close>

fun js_times :: "(rat \<Rightarrow> rat) \<Rightarrow> jsnum \<Rightarrow> rat \<Rightarrow> jsnum" where
  "js_times rnd (Num q) k = Num (rnd (q * k))"
| "js_times rnd NaN k = NaN"
| "js_times rnd PosInf k = (if k = 0 then NaN else if 0 < k then PosInf else NegInf)"
| "js_times rnd NegInf k = (if k = 0 then NaN else if 0 < k then NegInf else PosInf)"

text \<open>\<^verbatim>\<open>x + y\<close> on numbers.\<close>

fun js_plus :: "(rat \<Rightarrow> rat) \<Rightarrow> jsnum \<Rightarrow> jsnum \<Rightarrow> jsnum" where
  "js_plus rnd (Num a) (Num b) = Num (rnd (a + b))"
| "js_plus rnd NaN y = NaN"
| "js_plus rnd x NaN = NaN"
| "js_plus rnd PosInf NegInf = NaN"
| "js_plus rnd NegInf PosInf = NaN"
| "js_plus rnd PosInf y = PosInf"
| "js_plus rnd x PosInf = PosInf"
| "js_plus rnd NegInf y = NegInf"
| "js_plus rnd x NegInf = NegInf"

section \<open>Aggregate queries (lines 71 to 86)\<close>

text \<open>
  Line 71: \<^verbatim>\<open>data2022.filter((d) => d.civility === 'M.').length / data2022.length * 100\<close>,
  with the civility value as a parameter: a division, then a multiplication, each in the
  arithmetic given as first argument.
\<close>

definition percentageWithCivility ::
  "(rat \<Rightarrow> rat) \<Rightarrow> endorsement list \<Rightarrow> string \<Rightarrow> jsnum" where
  "percentageWithCivility rnd records v =
     js_times rnd
       (js_div rnd (length (filter (\<lambda>d. civility d = v) records)) (length records)) 100"

text \<open>Line 77: \<^verbatim>\<open>data2022.filter((d) => d.mandate.includes('Maire')).length\<close>.\<close>

definition countByMandateSubstring :: "endorsement list \<Rightarrow> string \<Rightarrow> nat" where
  "countByMandateSubstring records t = length (filter (\<lambda>d. includes_js (mandate d) t) records)"

text \<open>
  Line 82: \<^verbatim>\<open>data2022.filter((d) => d.candidate === 'zemmour' && d.mandate.includes('Maire')
  && d.civility === 'Mme').length\<close>, the three constants as parameters, the conjuncts in
  the order of the source.
\<close>

definition countByCandidateAndCivilityAndMandate ::
  "endorsement list \<Rightarrow> string \<Rightarrow> string \<Rightarrow> string \<Rightarrow> nat" where
  "countByCandidateAndCivilityAndMandate records c v t =
     length (filter (\<lambda>d. candidate d = c \<and> includes_js (mandate d) t \<and> civility d = v) records)"

text \<open>Line 86: \<^verbatim>\<open>[...new Set(data2022.map((d) => d.candidate))]\<close>.\<close>

definition distinctCandidates :: "endorsement list \<Rightarrow> string list" where
  "distinctCandidates records = new_Set (map candidate records)"

text \<open>The same expression on the civility field, for the sum of the percentages.\<close>

definition distinctCivilities :: "endorsement list \<Rightarrow> string list" where
  "distinctCivilities records = new_Set (map civility records)"

section \<open>The reduce idioms (lines 97 to 116)\<close>

definition array :: "int list" where
  "array = [2, 3, 8, 6, 1, 7, 4, 5]"

text \<open>Line 98: \<^verbatim>\<open>array.reduce((acc, d) => acc + d, 0)\<close>.\<close>

definition reduce_sum :: "'a::{plus,zero} list \<Rightarrow> 'a" where
  "reduce_sum xs = reduce (\<lambda>acc d. acc + d) 0 xs"

text \<open>Line 104: \<^verbatim>\<open>array.reduce((acc, d) => [...acc, d * 2], [])\<close>.\<close>

definition reduce_double :: "'a::{times,numeral} list \<Rightarrow> 'a list" where
  "reduce_double xs = reduce (\<lambda>acc d. acc @ [d * 2]) [] xs"

text \<open>
  Lines 109 to 114: \<^verbatim>\<open>array.reduce((acc, d) => { if (d >= 4) { return [...acc, d]; }
  return acc; }, [])\<close>.
\<close>

definition reduce_at_least_4 :: "'a::{ord,numeral} list \<Rightarrow> 'a list" where
  "reduce_at_least_4 xs = reduce (\<lambda>acc d. if d \<ge> 4 then acc @ [d] else acc) [] xs"

text \<open>The end-to-end example records of the specification.\<close>

definition example2022 :: "endorsement list" where
  "example2022 =
     [\<lparr>name = ''A'', civility = ''Mme'', mandate = ''Maire de Paris'',
       constituency = ''X1'', candidate = ''zemmour''\<rparr>]"

definition example2017 :: "endorsement list" where
  "example2017 =
     [\<lparr>name = ''A'', civility = '''', mandate = '''',
       constituency = ''X1'', candidate = ''fillon''\<rparr>]"

section \<open>Batch retrieval and the whole script as an effectful program\<close>

text \<open>
  The script reaches the outside world through \<^verbatim>\<open>fetch\<close> (node-fetch),
  \<^verbatim>\<open>fs.readFileSync\<close> and the JSON parser (\<^verbatim>\<open>JSON.parse\<close>, \<^verbatim>\<open>response.json()\<close>).
  Each of them either delivers a value or throws (rejects). The three failures are named
  as in the specification: a rejected \<^verbatim>\<open>fetch\<close> is a \<open>RetrievalError\<close>, a throwing
  \<^verbatim>\<open>readFileSync\<close> a \<open>FileAccessError\<close>, a throwing parser a \<open>DecodeError\<close>.
\<close>

datatype error = RetrievalError | FileAccessError | DecodeError

text \<open>
  \<^verbatim>\<open>fetch\<close> rejects when the transport fails. When the server answers, it fulfils with
  the response, whatever the status of the response; the script never looks at the
  status.
\<close>

record response =
  status :: nat
  body :: string

text \<open>
  Every request has an answer of its own: the same URL may answer one request and fail
  the next. A request is named by the line of the script that sends it and, in the two
  batches, by the position of its URL in the list.
\<close>

datatype site = Line42 | Line55 | Line65 | Line131 nat | Line142 nat

text \<open>
  The outside world is a parameter of the program: what each request is answered, what a
  path holds, and what the parser makes of a text.
\<close>

record world =
  fetch :: "site \<Rightarrow> string \<Rightarrow> error + response"
  readFileSync :: "string \<Rightarrow> error + string"
  JSON_parse :: "string \<Rightarrow> error + endorsement list"

text \<open>A value in the tally object of the join: a number, \<^verbatim>\<open>NaN\<close> or a string.\<close>

datatype prim = JNum nat | JNaN | JStr string

text \<open>What \<^verbatim>\<open>console.log\<close> is given.\<close>

datatype logged =
    LNat nat
  | LNum jsnum
  | LInt int
  | LInts "int list"
  | LStrings "string list"
  | LSlots "string option list"
  | LScraping string
  | LTally "(string \<times> prim) list"

text \<open>
  The operations the program performs, in the order in which it performs them: a line
  on the console, a request sent, a request settled, a file read, a text parsed.
\<close>

datatype event =
    Log logged
  | Request site string
  | Settled site string
  | ReadFile string
  | Parse string

text \<open>
  A computation yields the operations performed and either the error thrown or the
  value. \<open>bind\<close> is \<^verbatim>\<open>await\<close> followed by the rest of the function: when the awaited
  computation has thrown, the rest is not run.
\<close>

type_synonym 'a io = "event list \<times> (error + 'a)"

definition return :: "'a \<Rightarrow> 'a io" where
  "return x = ([], Inr x)"

definition bind :: "'a io \<Rightarrow> ('a \<Rightarrow> 'b io) \<Rightarrow> 'b io" where
  "bind m f =
     (case m of
        (tr, Inl e) \<Rightarrow> (tr, Inl e)
      | (tr, Inr x) \<Rightarrow> (case f x of (tr', r) \<Rightarrow> (tr @ tr', r)))"

definition console_log :: "logged \<Rightarrow> unit io" where
  "console_log v = ([Log v], Inr ())"

text \<open>\<^verbatim>\<open>fetch(url)\<close>: the request is sent, then it settles with a response or rejects.\<close>

definition request :: "site \<Rightarrow> string \<Rightarrow> unit io" where
  "request s url = ([Request s url], Inr ())"

definition settled :: "world \<Rightarrow> site \<Rightarrow> string \<Rightarrow> response io" where
  "settled w s url = ([Settled s url], fetch w s url)"

definition parse :: "world \<Rightarrow> string \<Rightarrow> endorsement list io" where
  "parse w t = ([Parse t], JSON_parse w t)"

definition read_file :: "world \<Rightarrow> string \<Rightarrow> string io" where
  "read_file w path = ([ReadFile path], readFileSync w path)"

text \<open>\<^verbatim>\<open>await fetch(url).then((r) => r.text())\<close>: the body of the response, as it is.\<close>

definition fetch_text :: "world \<Rightarrow> site \<Rightarrow> string \<Rightarrow> string io" where
  "fetch_text w s url =
     bind (request s url) (\<lambda>_.
     bind (settled w s url) (\<lambda>r.
     return (body r)))"

text \<open>\<^verbatim>\<open>await fetch(url).then((r) => r.json())\<close>: the body of the response, parsed.\<close>

definition fetch_json :: "world \<Rightarrow> site \<Rightarrow> string \<Rightarrow> endorsement list io" where
  "fetch_json w s url =
     bind (request s url) (\<lambda>_.
     bind (settled w s url) (\<lambda>r.
     parse w (body r)))"

definition URLS :: "string list" where
  "URLS = [''https://example.com'', ''https://tomfevrier.io'', ''https://lesechos.fr'']"

text \<open>
  Lines 139 to 145, the sequential batch:
  \<^verbatim>\<open>URLS.reduce(async (promise, url) => { const pages = await promise;
  console.log('Scraping', url); const html = await fetch(url).then((r) => r.text());
  await sleep(2000); return [...pages, html]; }, Promise.resolve([]))\<close>.
  The pause changes the time only. The position of the URL, which names the request, is
  the number of pages collected so far.
\<close>

definition sequential_step :: "world \<Rightarrow> string list io \<Rightarrow> string \<Rightarrow> string list io" where
  "sequential_step w promise url =
     bind promise (\<lambda>pages.
     bind (console_log (LScraping url)) (\<lambda>_.
     bind (fetch_text w (Line142 (length pages)) url) (\<lambda>html.
     return (pages @ [html]))))"

definition webpagesSequential :: "world \<Rightarrow> string list \<Rightarrow> string list io" where
  "webpagesSequential w urls = reduce (sequential_step w) (return []) urls"

text \<open>
  Lines 129 to 134, the concurrent batch:
  \<^verbatim>\<open>Promise.all(URLS.map(async (url) => { console.log('Scraping', url);
  const html = await fetch(url).then((r) => r.text()); await sleep(2000); return html; }))\<close>.
  \<^verbatim>\<open>map\<close> calls the function on every URL at once: each call runs up to its first
  \<^verbatim>\<open>await\<close>, so every line is printed and every request is sent before any of them
  settles. \<open>start_all i urls\<close> starts the tasks of the positions \<open>i\<close>, \<open>i + 1\<close>, ...
\<close>

fun start_all :: "nat \<Rightarrow> string list \<Rightarrow> unit io" where
  "start_all i [] = return ()"
| "start_all i (url # urls) =
     bind (console_log (LScraping url)) (\<lambda>_.
     bind (request (Line131 i) url) (\<lambda>_.
     start_all (Suc i) urls))"

text \<open>
  The tasks then settle in an order that the program does not control: \<open>order\<close> lists
  the indices of the tasks as they settle. \<^verbatim>\<open>Promise.all\<close> keeps one slot per input
  position, \<^verbatim>\<open>undefined\<close> (here \<open>None\<close>) at first; a task that fulfils writes the slot
  of its own index; the first task that rejects rejects the whole. An index that names no
  task, or a task that has settled already, changes nothing.
\<close>

fun settle_all :: "world \<Rightarrow> string list \<Rightarrow> nat list \<Rightarrow> string option list \<Rightarrow> string option list io" where
  "settle_all w urls [] slots = return slots"
| "settle_all w urls (i # order) slots =
     (if i < length urls \<and> slots ! i = None
      then bind (settled w (Line131 i) (urls ! i)) (\<lambda>r.
           settle_all w urls order (slots[i := Some (body r)]))
      else settle_all w urls order slots)"

text \<open>
  Every request settles in the end: after the tasks named in \<open>order\<close>, the remaining
  ones settle by index. So every list of indices is a schedule.
\<close>

definition Promise_all :: "world \<Rightarrow> string list \<Rightarrow> nat list \<Rightarrow> string option list io" where
  "Promise_all w urls order =
     settle_all w urls (order @ [0..<length urls]) (replicate (length urls) None)"

definition webpagesSimultaneous :: "world \<Rightarrow> string list \<Rightarrow> nat list \<Rightarrow> string option list io" where
  "webpagesSimultaneous w urls order = bind (start_all 0 urls) (\<lambda>_. Promise_all w urls order)"

section \<open>Cross-year join (lines 166 to 175)\<close>

text \<open>
  The accumulator of the join is the object literal \<^verbatim>\<open>{}\<close>. Its own properties are
  kept as an association list in the order of their creation (the order in which
  JavaScript enumerates them is not modelled). Being an ordinary object,
  it inherits from \<^verbatim>\<open>Object.prototype\<close>: reading a key that is not an own property
  yields the inherited property of that name when there is one.
\<close>

datatype jsval = Undefined | Prim prim | NativeFunction string | ObjectPrototype

definition Object_prototype_methods :: "string list" where
  "Object_prototype_methods =
     [''__defineGetter__'', ''__defineSetter__'', ''hasOwnProperty'', ''__lookupGetter__'',
      ''__lookupSetter__'', ''isPrototypeOf'', ''propertyIsEnumerable'', ''toString'',
      ''valueOf'', ''toLocaleString'']"

text \<open>
  The properties of \<^verbatim>\<open>Object.prototype\<close> in Node: \<^verbatim>\<open>constructor\<close> is the function
  \<^verbatim>\<open>Object\<close>, the accessor \<^verbatim>\<open>__proto__\<close> reads the prototype of the receiver (for the
  accumulator, \<^verbatim>\<open>Object.prototype\<close> itself), the others are built-in functions that
  carry the name of their key.
\<close>

definition inherited :: "string \<Rightarrow> jsval" where
  "inherited k =
     (if k = ''__proto__'' then ObjectPrototype
      else if k = ''constructor'' then NativeFunction ''Object''
      else if k \<in> set Object_prototype_methods then NativeFunction k
      else Undefined)"

text \<open>\<^verbatim>\<open>acc[k]\<close>.\<close>

definition get_prop :: "(string \<times> prim) list \<Rightarrow> string \<Rightarrow> jsval" where
  "get_prop acc k = (case map_of acc k of Some v \<Rightarrow> Prim v | None \<Rightarrow> inherited k)"

fun put_own :: "(string \<times> prim) list \<Rightarrow> string \<Rightarrow> prim \<Rightarrow> (string \<times> prim) list" where
  "put_own [] k v = [(k, v)]"
| "put_own ((k', v') # ps) k v = (if k' = k then (k, v) # ps else (k', v') # put_own ps k v)"

text \<open>
  \<^verbatim>\<open>acc[k] = v\<close> for a primitive \<open>v\<close>. The setter of \<^verbatim>\<open>__proto__\<close> ignores a value that
  is neither an object nor \<^verbatim>\<open>null\<close>; every other key becomes (or stays) an own property.
\<close>

definition set_prop :: "(string \<times> prim) list \<Rightarrow> string \<Rightarrow> prim \<Rightarrow> (string \<times> prim) list" where
  "set_prop acc k v = (if k = ''__proto__'' then acc else put_own acc k v)"

fun truthy :: "jsval \<Rightarrow> bool" where
  "truthy Undefined = False"
| "truthy (Prim (JNum n)) = (n \<noteq> 0)"
| "truthy (Prim JNaN) = False"
| "truthy (Prim (JStr s)) = (s \<noteq> [])"
| "truthy (NativeFunction f) = True"
| "truthy ObjectPrototype = True"

text \<open>\<^verbatim>\<open>v || 0\<close>.\<close>

definition or_zero :: "jsval \<Rightarrow> jsval" where
  "or_zero v = (if truthy v then v else Prim (JNum 0))"

text \<open>
  \<^verbatim>\<open>v + 1\<close>: a number is incremented; anything that is not a number is first converted
  to a primitive, which for a function and for an object is a string, and the digit is
  appended to that string.
\<close>

fun plus_one :: "jsval \<Rightarrow> prim" where
  "plus_one (Prim (JNum n)) = JNum (n + 1)"
| "plus_one (Prim JNaN) = JNaN"
| "plus_one Undefined = JNaN"
| "plus_one (Prim (JStr s)) = JStr (s @ ''1'')"
| "plus_one (NativeFunction f) = JStr (''function '' @ f @ ''() { [native code] }'' @ ''1'')"
| "plus_one ObjectPrototype = JStr (''[object Object]'' @ ''1'')"

text \<open>
  The callback of the reduce, lines 167 to 174:
  \<^verbatim>\<open>const sponsor2017 = data2017.find((e) => e.name === d.name && e.constituency ===
  d.constituency); if (sponsor2017) { const candidate2017 = sponsor2017.candidate;
  acc[candidate2017] = (acc[candidate2017] || 0) + 1; } return acc;\<close>
\<close>

definition sponsor2017 :: "endorsement list \<Rightarrow> endorsement \<Rightarrow> endorsement option" where
  "sponsor2017 data2017 d =
     find_js (\<lambda>e. name e = name d \<and> constituency e = constituency d) data2017"

definition join_step ::
  "endorsement list \<Rightarrow> (string \<times> prim) list \<Rightarrow> endorsement \<Rightarrow> (string \<times> prim) list" where
  "join_step data2017 acc d =
     (case sponsor2017 data2017 d of
        None \<Rightarrow> acc
      | Some s \<Rightarrow>
          (let candidate2017 = candidate s
           in set_prop acc candidate2017 (plus_one (or_zero (get_prop acc candidate2017)))))"

text \<open>
  \<^verbatim>\<open>data2022.filter((d) => d.candidate === 'zemmour').reduce(..., {})\<close>, the candidate
  as a parameter.
\<close>

definition crossYearJoin ::
  "string \<Rightarrow> endorsement list \<Rightarrow> endorsement list \<Rightarrow> (string \<times> prim) list" where
  "crossYearJoin c data2022 data2017 =
     reduce (join_step data2017) [] (filter (\<lambda>d. candidate d = c) data2022)"

section \<open>The script (lines 64 to 198)\<close>

definition url2022 :: string where
  "url2022 = ''https://media.lesechos.fr/infographie/embed-tracker-parrainages/data-2022.json''"

definition main :: "world \<Rightarrow> nat list \<Rightarrow> unit io" where
  "main w order =
     bind (fetch_json w Line65 url2022) (\<lambda>data2022.
     bind (console_log (LNat (length data2022))) (\<lambda>_.
     bind (console_log (LNum (percentageWithCivility binary64 data2022 ''M.''))) (\<lambda>_.
     bind (console_log (LNat (countByMandateSubstring data2022 ''Maire''))) (\<lambda>_.
     bind (console_log (LNat (countByCandidateAndCivilityAndMandate data2022
            ''zemmour'' ''Mme'' ''Maire''))) (\<lambda>_.
     bind (console_log (LStrings (distinctCandidates data2022))) (\<lambda>_.
     bind (console_log (LInt (reduce_sum array))) (\<lambda>_.
     bind (console_log (LInts (reduce_double array))) (\<lambda>_.
     bind (console_log (LInts (reduce_at_least_4 array))) (\<lambda>_.
     bind (webpagesSimultaneous w URLS order) (\<lambda>simultaneous.
     bind (console_log (LSlots simultaneous)) (\<lambda>_.
     bind (webpagesSequential w URLS) (\<lambda>sequential.
     bind (console_log (LStrings sequential)) (\<lambda>_.
     bind (read_file w ''data-2017.json'') (\<lambda>text2017.
     bind (parse w text2017) (\<lambda>data2017.
     console_log (LTally (crossYearJoin ''zemmour'' data2022 data2017)))))))))))))))))"







section \<open>Example inputs\<close>

definition example_three :: "endorsement list" where
  "example_three =
     [\<lparr>name = ''A'', civility = ''Mme'', mandate = ''Maire de Paris'',
       constituency = ''X1'', candidate = ''zemmour''\<rparr>,
      \<lparr>name = ''B'', civility = ''M.'', mandate = ''Maire'',
       constituency = ''X2'', candidate = ''zemmour''\<rparr>,
      \<lparr>name = ''C'', civility = ''M.'', mandate = ''Conseiller'',
       constituency = ''X3'', candidate = ''macron''\<rparr>]"

text \<open>Eleven records with civility \<open>M.\<close> and nine with civility \<open>Mme\<close>.\<close>

definition example_twenty :: "endorsement list" where
  "example_twenty =
     replicate 11 \<lparr>name = ''B'', civility = ''M.'', mandate = ''Maire'',
                   constituency = ''X2'', candidate = ''zemmour''\<rparr>
     @ replicate 9 \<lparr>name = ''A'', civility = ''Mme'', mandate = ''Maire de Paris'',
                    constituency = ''X1'', candidate = ''zemmour''\<rparr>"

text \<open>
  A world in which every request is answered with status 200, the answer of the data URL
  decodes to the example collection, and the local file is missing.
\<close>

definition example_body :: "string \<Rightarrow> string" where
  "example_body url = ''<html>'' @ url"

definition example_world :: world where
  "example_world =
     \<lparr>fetch = (\<lambda>s url. Inr \<lparr>status = 200, body = example_body url\<rparr>),
      readFileSync = (\<lambda>path. Inl FileAccessError),
      JSON_parse = (\<lambda>t. if t = example_body url2022 then Inr example2022 else Inl DecodeError)\<rparr>"


text \<open>
  The same world, except that the second request of the sequential batch is rejected,
  after the request for the same URL in the concurrent batch was answered.
\<close>

definition world_rejected :: world where
  "world_rejected =
     \<lparr>fetch = (\<lambda>s url. if s = Line142 1 then Inl RetrievalError
                        else Inr \<lparr>status = 200, body = example_body url\<rparr>),
      readFileSync = (\<lambda>path. Inr ''[2017]''),
      JSON_parse = (\<lambda>t. if t = example_body url2022 then Inr example2022
                         else if t = ''[2017]'' then Inr example2017
                         else Inl DecodeError)\<rparr>"

text \<open>Prior-year collections whose candidate is the name of an inherited property.\<close>

definition constructor2017 :: "endorsement list" where
  "constructor2017 =
     [\<lparr>name = ''A'', civility = [], mandate = [],
       constituency = ''X1'', candidate = ''constructor''\<rparr>]"

definition proto2017 :: "endorsement list" where
  "proto2017 =
     [\<lparr>name = ''A'', civility = [], mandate = [],
       constituency = ''X1'', candidate = ''__proto__''\<rparr>]"

section \<open>Reading the tally\<close>

text \<open>A tally value is a count when it is a number that is at least 1.\<close>

fun is_count :: "prim \<Rightarrow> bool" where
  "is_count (JNum n) = (1 \<le> n)"
| "is_count JNaN = False"
| "is_count (JStr s) = False"

fun count_value :: "prim \<Rightarrow> nat" where
  "count_value (JNum n) = n"
| "count_value JNaN = 0"
| "count_value (JStr s) = 0"

definition count_of :: "(string \<times> prim) list \<Rightarrow> string \<Rightarrow> nat" where
  "count_of acc k = (case map_of acc k of None \<Rightarrow> 0 | Some v \<Rightarrow> count_value v)"

definition tally_sum :: "(string \<times> prim) list \<Rightarrow> nat" where
  "tally_sum acc = sum_list (map (\<lambda>p. count_value (snd p)) acc)"

text \<open>
  The current-year records of the given candidate that have a prior-year record with the
  same name and the same constituency, and those among them whose first such prior-year
  record names the candidate \<open>k\<close>.
\<close>

definition matched :: "string \<Rightarrow> endorsement list \<Rightarrow> endorsement list \<Rightarrow> endorsement list" where
  "matched c data2022 data2017 =
     filter (\<lambda>d. sponsor2017 data2017 d \<noteq> None) (filter (\<lambda>d. candidate d = c) data2022)"

definition matched_for ::
  "string \<Rightarrow> string \<Rightarrow> endorsement list \<Rightarrow> endorsement list \<Rightarrow> endorsement list" where
  "matched_for k c data2022 data2017 =
     filter (\<lambda>d. map_option candidate (sponsor2017 data2017 d) = Some k)
       (filter (\<lambda>d. candidate d = c) data2022)"

text \<open>No candidate of the prior-year collection is the name of an inherited property.\<close>

definition plain_candidates :: "endorsement list \<Rightarrow> bool" where
  "plain_candidates data2017 = list_all (\<lambda>e. inherited (candidate e) = Undefined) data2017"

section \<open>Facts about the built-ins\<close>

lemma reduce_foldl: "reduce f acc xs = foldl f acc xs"
  by (induction xs arbitrary: acc) simp_all

lemma reduce_append_map: "reduce (\<lambda>acc d. acc @ [g d]) acc xs = acc @ map g xs"
  by (induction xs arbitrary: acc) simp_all

lemma reduce_append_filter:
  "reduce (\<lambda>acc d. if p d then acc @ [d] else acc) acc xs = acc @ filter p xs"
  by (induction xs arbitrary: acc) simp_all

lemma starts_with_prefix: "starts_with s t \<longleftrightarrow> prefix t s"
  by (induction s t rule: starts_with.induct) auto

lemma includes_sublist: "includes_js s t \<longleftrightarrow> sublist t s"
proof (induction s)
  case Nil
  show ?case by (cases t) simp_all
next
  case (Cons b s)
  show ?case
    by (simp add: Cons.IH starts_with_prefix sublist_Cons_right)
qed

lemma set_Set_add: "set (Set_add s x) = insert x (set s)"
  by (auto simp: Set_add_def)

lemma distinct_Set_add: "distinct s \<Longrightarrow> distinct (Set_add s x)"
  by (simp add: Set_add_def)

lemma set_new_Set_from: "set (new_Set_from s xs) = set s \<union> set xs"
  by (induction xs arbitrary: s) (simp_all add: set_Set_add)

lemma distinct_new_Set_from: "distinct s \<Longrightarrow> distinct (new_Set_from s xs)"
  by (induction xs arbitrary: s) (simp_all add: distinct_Set_add)

lemma set_new_Set: "set (new_Set xs) = set xs"
  by (simp add: new_Set_def set_new_Set_from)

lemma distinct_new_Set: "distinct (new_Set xs)"
  by (simp add: new_Set_def distinct_new_Set_from)

lemma length_filter_card_positions:
  "length (filter p xs) = card {i. i < length xs \<and> p (xs ! i)}"
  by (simp add: length_filter_conv_card)

section \<open>The reduce idioms are map and filter\<close>

lemma reduce_idioms_on_array:
  "reduce_sum array = 36 \<and> reduce_double array = [4, 6, 16, 12, 2, 14, 8, 10]
   \<and> reduce_at_least_4 array = [8, 6, 7, 4, 5]"
  by (simp add: reduce_sum_def reduce_double_def reduce_at_least_4_def array_def)

text \<open>
  Claim C9. For every list of numbers, the reduce of line 104, which appends \<open>d * 2\<close> to
  an accumulator that starts empty, returns the list that \<open>map\<close> with \<open>d * 2\<close> returns,
  and the reduce of lines 109 to 114, which appends \<open>d\<close> only when \<open>d \<ge> 4\<close>, returns the
  list that \<open>filter\<close> with \<open>d \<ge> 4\<close> returns. The statement holds for any type of numbers
  with a multiplication and an order, not only on the array of the demonstration.
\<close>

theorem reduce_idioms_are_map_and_filter:
  "reduce_double xs = map (\<lambda>d. d * 2) xs \<and> reduce_at_least_4 xs = filter (\<lambda>d. d \<ge> 4) xs"
  using reduce_append_map [of "\<lambda>d. d * 2" "[]" xs]
    reduce_append_filter [of "\<lambda>d. d \<ge> 4" "[]" xs]
  by (simp add: reduce_double_def reduce_at_least_4_def)

section \<open>Distinct candidates\<close>

text \<open>
  Claim C7. For every collection of records, the list of distinct candidates of line 86
  has no duplicate, and each of its elements is the candidate of at least one record of
  the collection.
\<close>

theorem distinctCandidates_distinct_and_sound:
  "distinct (distinctCandidates records) \<and>
   (\<forall>c \<in> set (distinctCandidates records). \<exists>d \<in> set records. candidate d = c)"
  by (auto simp: distinctCandidates_def distinct_new_Set set_new_Set)

theorem distinctCandidates_distinct_and_sound_witness:
  "''fillon'' \<in> set (distinctCandidates (example2022 @ example2017 @ example2022))
   \<and> distinct (distinctCandidates (example2022 @ example2017 @ example2022))
   \<and> ''fillon'' \<in> candidate ` set (example2022 @ example2017 @ example2022)"
  using distinctCandidates_distinct_and_sound [of "example2022 @ example2017 @ example2022"]
  by (simp add: distinctCandidates_def new_Set_def Set_add_def example2022_def example2017_def)

lemma distinctCandidates_example:
  "distinctCandidates (example2022 @ example2017 @ example2022) = [''zemmour'', ''fillon'']"
  by (simp add: distinctCandidates_def new_Set_def Set_add_def example2022_def example2017_def)

section \<open>Percentage of a civility\<close>

lemma binary64_of_0: "binary64 0 = 0"
  by (simp add: binary64_def)

text \<open>
  With eleven \<open>M.\<close> among twenty records the script prints \<^verbatim>\<open>55.00000000000001\<close>, the
  double next above 55: the quotient \<open>11 / 20\<close> is rounded, and so is its product with 100.
\<close>

lemma percentageWithCivility_example_twenty:
  "percentageWithCivility binary64 example_twenty ''M.'' = Num (55 + 1 / 2 ^ 47)
   \<and> percentageWithCivility exact example_twenty ''M.'' = Num 55"
proof -
  have "binary64 (binary64 (11 / 20) * 100) = 55 + 1 / 2 ^ 47"
    by code_simp
  then show ?thesis
    by (simp add: percentageWithCivility_def js_div_def example_twenty_def exact_def)
qed

text \<open>
  Claim C3. For every collection of records and every civility value \<open>v\<close>, the expression
  of line 71 is the number of records (counted by position) whose civility field is
  equal to \<open>v\<close>, divided by the number of records, times 100, the division and the
  multiplication being those of JavaScript numbers: each rounds its exact result to the
  nearest double. On the empty collection the division is \<open>0 / 0\<close>, which is \<open>NaN\<close>.
\<close>

theorem percentageWithCivility_is_count_over_total:
  "percentageWithCivility binary64 records v =
     js_times binary64
       (js_div binary64 (card {i. i < length records \<and> civility (records ! i) = v})
                        (length records)) 100
   \<and> percentageWithCivility binary64 records v =
     (if records = [] then NaN
      else Num (binary64
             (binary64 (of_nat (card {i. i < length records \<and> civility (records ! i) = v})
                        / of_nat (length records)) * 100)))"
  by (simp add: percentageWithCivility_def js_div_def length_filter_card_positions)

text \<open>
  Claim C5. On the empty collection the expression of line 71 is \<open>NaN\<close>, the value of the
  division \<open>0 / 0\<close>, and in particular it is not the number 0, whatever the rounding.
\<close>

theorem percentageWithCivility_empty_is_NaN:
  "percentageWithCivility rnd [] v = NaN \<and> percentageWithCivility rnd [] v \<noteq> Num 0"
  by (simp add: percentageWithCivility_def js_div_def)

section \<open>Count by candidate, civility and mandate\<close>

lemma countByMandateSubstring_example:
  "countByMandateSubstring example2022 ''Maire'' = 1"
  by (simp add: countByMandateSubstring_def example2022_def)

lemma includes_js_is_case_sensitive:
  "countByCandidateAndCivilityAndMandate example2022 ''zemmour'' ''Mme'' ''maire'' = 0"
  by (simp add: countByCandidateAndCivilityAndMandate_def example2022_def)

text \<open>
  Claim C6. For every collection of records, the count of line 82 is the number of records
  (counted by position) that satisfy the three conditions together: the candidate field
  is equal to the given candidate, the civility field is equal to the given civility, and
  the mandate field contains the given text as a contiguous run of characters, compared
  character by character. On the example collection the count for \<open>zemmour\<close>, \<open>Mme\<close>,
  \<open>Maire\<close> is 1.
\<close>

theorem countByCandidateAndCivilityAndMandate_is_conjunctive_count:
  "countByCandidateAndCivilityAndMandate records c v t =
     card {i. i < length records \<and> candidate (records ! i) = c \<and> civility (records ! i) = v
              \<and> sublist t (mandate (records ! i))}
   \<and> countByCandidateAndCivilityAndMandate example2022 ''zemmour'' ''Mme'' ''Maire'' = 1"
proof -
  have "{i. i < length records \<and> candidate (records ! i) = c
            \<and> includes_js (mandate (records ! i)) t \<and> civility (records ! i) = v}
      = {i. i < length records \<and> candidate (records ! i) = c \<and> civility (records ! i) = v
            \<and> sublist t (mandate (records ! i))}"
    by (auto simp: includes_sublist)
  then have "countByCandidateAndCivilityAndMandate records c v t =
     card {i. i < length records \<and> candidate (records ! i) = c \<and> civility (records ! i) = v
              \<and> sublist t (mandate (records ! i))}"
    by (simp add: countByCandidateAndCivilityAndMandate_def length_filter_card_positions)
  moreover
  have "countByCandidateAndCivilityAndMandate example2022 ''zemmour'' ''Mme'' ''Maire'' = 1"
    by (simp add: countByCandidateAndCivilityAndMandate_def example2022_def)
  ultimately show ?thesis by simp
qed

section \<open>Range and sum of the percentages\<close>

lemma civility_count_list:
  "length (filter (\<lambda>d. civility d = v) records) = count_list (map civility records) v"
  by (induction records) auto

lemma sum_counts_over_distinctCivilities:
  "sum_list (map (\<lambda>v. length (filter (\<lambda>d. civility d = v) records))
                 (distinctCivilities records)) = length records"
proof -
  have "sum_list (map (count_list (map civility records)) (distinctCivilities records))
      = sum (count_list (map civility records)) (set (map civility records))"
    using sum_list_distinct_conv_sum_set
      [of "distinctCivilities records" "count_list (map civility records)"]
    by (simp add: distinctCivilities_def distinct_new_Set set_new_Set)
  also have "\<dots> = length (map civility records)"
    by (rule sum_count_set) simp_all
  finally show ?thesis by (simp add: civility_count_list)
qed

lemma reduce_js_plus_Num:
  "reduce (js_plus exact) (Num a) (map (\<lambda>v. Num (f v)) vs) = Num (a + sum_list (map f vs))"
  by (induction vs arbitrary: a) (simp_all add: add.assoc exact_def)

lemma sum_list_scaled:
  "sum_list (map (\<lambda>v. (of_nat (c v) :: rat) * k) vs) = of_nat (sum_list (map c vs)) * k"
  by (induction vs) (simp_all add: algebra_simps)

lemma percentageWithCivility_nonempty:
  "records \<noteq> [] \<Longrightarrow> percentageWithCivility exact records v =
     Num (of_nat (length (filter (\<lambda>d. civility d = v) records))
          * (100 / of_nat (length records)))"
  by (simp add: percentageWithCivility_def js_div_def exact_def)

text \<open>
  In doubles the percentages need not add up to 100: for one \<open>Mme\<close> and two \<open>M.\<close> the
  script would add \<^verbatim>\<open>33.33333333333333\<close> and \<^verbatim>\<open>66.66666666666666\<close> to
  \<^verbatim>\<open>99.99999999999999\<close>.
\<close>

lemma sum_of_percentages_in_doubles:
  "reduce (js_plus binary64) (Num 0)
     (map (percentageWithCivility binary64 example_three) (distinctCivilities example_three))
   = Num (100 - 1 / 2 ^ 46)"
  by code_simp

text \<open>
  Claim C4. For every collection of records that is not empty and every civility value,
  the percentage of line 71 is a number between 0 and 100, both included, and the
  percentages of the distinct civility values that occur in the collection add up to 100.
  As the claim has it, the statement is made over exact rational arithmetic in place of
  floating point: division, multiplication and addition do not round.
\<close>

theorem percentageWithCivility_range_and_sum:
  assumes "records \<noteq> []"
  shows "(\<exists>q. percentageWithCivility exact records v = Num q \<and> 0 \<le> q \<and> q \<le> 100)
       \<and> reduce (js_plus exact) (Num 0)
            (map (percentageWithCivility exact records) (distinctCivilities records))
          = Num 100"
proof -
  let ?n = "length records"
  let ?c = "\<lambda>v. length (filter (\<lambda>d. civility d = v) records)"
  have n: "0 < ?n" using assms by simp
  have "?c v \<le> ?n" by simp
  then have "(of_nat (?c v) :: rat) \<le> of_nat ?n" by (simp only: of_nat_le_iff)
  then have "(of_nat (?c v) :: rat) * (100 / of_nat ?n) \<le> 100"
    using n by (simp add: field_simps)
  moreover have "0 \<le> (of_nat (?c v) :: rat) * (100 / of_nat ?n)" by simp
  ultimately
  have range: "\<exists>q. percentageWithCivility exact records v = Num q \<and> 0 \<le> q \<and> q \<le> 100"
    using percentageWithCivility_nonempty [OF assms] by blast
  have "map (percentageWithCivility exact records) (distinctCivilities records)
      = map (\<lambda>v. Num (of_nat (?c v) * (100 / of_nat ?n))) (distinctCivilities records)"
    using percentageWithCivility_nonempty [OF assms] by simp
  then have "reduce (js_plus exact) (Num 0)
               (map (percentageWithCivility exact records) (distinctCivilities records))
      = Num (0 + sum_list (map (\<lambda>v. of_nat (?c v) * (100 / of_nat ?n))
                               (distinctCivilities records)))"
    by (simp only: reduce_js_plus_Num)
  also have "sum_list (map (\<lambda>v. (of_nat (?c v) :: rat) * (100 / of_nat ?n))
                           (distinctCivilities records))
      = of_nat (sum_list (map ?c (distinctCivilities records))) * (100 / of_nat ?n)"
    by (rule sum_list_scaled)
  also have "\<dots> = 100"
    using n by (simp add: sum_counts_over_distinctCivilities)
  finally show ?thesis using range by simp
qed

theorem percentageWithCivility_range_and_sum_witness:
  "example_three \<noteq> [] \<and> percentageWithCivility exact example_three ''M.'' = Num (200 / 3)
   \<and> reduce (js_plus exact) (Num 0)
        (map (percentageWithCivility exact example_three) (distinctCivilities example_three))
      = Num 100"
  using percentageWithCivility_range_and_sum [of example_three "''M.''"]
  by (simp add: example_three_def percentageWithCivility_def js_div_def exact_def)

section \<open>Outcome of the effectful operations\<close>

lemma bind_Inr: "bind (tr, Inr x) f = (tr @ fst (f x), snd (f x))"
  by (simp add: bind_def split: prod.splits)


lemma snd_bind: "snd (bind m f) = (case snd m of Inl e \<Rightarrow> Inl e | Inr x \<Rightarrow> snd (f x))"
  by (cases m) (simp add: bind_def split: sum.splits prod.splits)

lemma snd_bind_ok: "snd m = Inr x \<Longrightarrow> snd (bind m f) = snd (f x)"
  by (simp add: snd_bind)

lemma snd_fetch_text:
  "snd (fetch_text w s url)
     = (case fetch w s url of Inl e \<Rightarrow> Inl e | Inr r \<Rightarrow> Inr (body r))"
  by (simp add: fetch_text_def snd_bind request_def settled_def return_def split: sum.splits)


lemma snd_sequential_step:
  "snd (sequential_step w promise url)
     = (case snd promise of
          Inl e \<Rightarrow> Inl e
        | Inr pages \<Rightarrow>
            (case fetch w (Line142 (length pages)) url of
               Inl e \<Rightarrow> Inl e
             | Inr r \<Rightarrow> Inr (pages @ [body r])))"
  by (simp add: sequential_step_def snd_bind snd_fetch_text console_log_def return_def
      split: sum.splits)


lemma reduce_sequential_step_ok:
  assumes "\<forall>s. \<forall>url \<in> set urls. \<exists>r. fetch w s url = Inr r \<and> body r = page url"
  shows "snd promise = Inr pages \<Longrightarrow>
         snd (reduce (sequential_step w) promise urls) = Inr (pages @ map page urls)"
  using assms
proof (induction urls arbitrary: promise pages)
  case Nil
  then show ?case by simp
next
  case (Cons url urls)
  obtain r where r: "fetch w (Line142 (length pages)) url = Inr r" "body r = page url"
    using Cons.prems(2) by auto
  have "snd (sequential_step w promise url) = Inr (pages @ [page url])"
    using Cons.prems(1) r by (simp add: snd_sequential_step)
  then have "snd (reduce (sequential_step w) (sequential_step w promise url) urls)
      = Inr ((pages @ [page url]) @ map page urls)"
    using Cons.prems(2) by (intro Cons.IH) simp_all
  then show ?case by simp
qed



lemma snd_start_all: "snd (start_all i urls) = Inr ()"
  by (induction urls arbitrary: i)
     (simp_all add: return_def snd_bind console_log_def request_def)

lemma settle_all_ok:
  assumes "\<forall>i < length urls. \<exists>r. fetch w (Line131 i) (urls ! i) = Inr r
              \<and> body r = page (urls ! i)"
    and "length slots = length urls"
  shows "\<exists>slots'. snd (settle_all w urls ord slots) = Inr slots'
          \<and> length slots' = length urls
          \<and> (\<forall>i < length urls. slots' ! i =
                (if i \<in> set ord \<and> slots ! i = None then Some (page (urls ! i))
                 else slots ! i))"
  using assms(2)
proof (induction ord arbitrary: slots)
  case Nil
  then show ?case by (simp add: return_def)
next
  case (Cons j ord)
  show ?case
  proof (cases "j < length urls \<and> slots ! j = None")
    case True
    obtain r where r: "fetch w (Line131 j) (urls ! j) = Inr r" "body r = page (urls ! j)"
      using True assms(1) by auto
    let ?s = "slots[j := Some (page (urls ! j))]"
    have len: "length ?s = length urls" using Cons.prems by simp
    obtain slots' where s: "snd (settle_all w urls ord ?s) = Inr slots'"
      "length slots' = length urls"
      "\<forall>i < length urls. slots' ! i =
         (if i \<in> set ord \<and> ?s ! i = None then Some (page (urls ! i)) else ?s ! i)"
      using Cons.IH [OF len] by blast
    have step: "snd (settle_all w urls (j # ord) slots) = snd (settle_all w urls ord ?s)"
      using True r by (simp add: settled_def snd_bind)
    have "\<forall>i < length urls. slots' ! i =
            (if i \<in> set (j # ord) \<and> slots ! i = None then Some (page (urls ! i))
             else slots ! i)"
    proof (intro allI impI)
      fix i assume i: "i < length urls"
      show "slots' ! i =
              (if i \<in> set (j # ord) \<and> slots ! i = None then Some (page (urls ! i))
               else slots ! i)"
        using s(3) i True Cons.prems by (cases "i = j") (auto simp: nth_list_update)
    qed
    with s step show ?thesis by auto
  next
    case False
    obtain slots' where s: "snd (settle_all w urls ord slots) = Inr slots'"
      "length slots' = length urls"
      "\<forall>i < length urls. slots' ! i =
         (if i \<in> set ord \<and> slots ! i = None then Some (page (urls ! i)) else slots ! i)"
      using Cons.IH [OF Cons.prems] by blast
    have step: "snd (settle_all w urls (j # ord) slots) = snd (settle_all w urls ord slots)"
      using False by auto
    have "\<forall>i < length urls. slots' ! i =
            (if i \<in> set (j # ord) \<and> slots ! i = None then Some (page (urls ! i))
             else slots ! i)"
      using s(3) False by auto
    with s step show ?thesis by auto
  qed
qed

lemma Promise_all_ok:
  assumes "\<forall>s. \<forall>url \<in> set urls. \<exists>r. fetch w s url = Inr r \<and> body r = page url"
  shows "snd (Promise_all w urls order) = Inr (map (\<lambda>url. Some (page url)) urls)"
proof -
  have a: "\<forall>i < length urls. \<exists>r. fetch w (Line131 i) (urls ! i) = Inr r
              \<and> body r = page (urls ! i)"
    using assms by simp
  obtain slots' where s: "snd (Promise_all w urls order) = Inr slots'"
      "length slots' = length urls"
      "\<forall>i < length urls. slots' ! i =
         (if i \<in> set (order @ [0..<length urls]) \<and> replicate (length urls) None ! i = None
          then Some (page (urls ! i)) else replicate (length urls) None ! i)"
    unfolding Promise_all_def
    using settle_all_ok [OF a, of "replicate (length urls) None" "order @ [0..<length urls]"]
    by auto
  have "slots' = map (\<lambda>url. Some (page url)) urls"
    using s(2,3) by (intro nth_equalityI) simp_all
  with s(1) show ?thesis by simp
qed



section \<open>The two batch retrievals return the same pages\<close>

text \<open>
  Claim C2. Let the retrieval be a function from URLs to bodies: every request for a URL
  of the list is answered, with the body \<open>page url\<close>. Then, for every list of URLs and
  whatever the order in which the concurrent tasks settle, the concurrent batch of lines
  129 to 134 fulfils with the bodies of the URLs, each in the slot of its own position,
  and the sequential batch of lines 139 to 145 fulfils with the list of the same bodies
  in the same order: slot by slot, the two results are the same sequence.
\<close>

theorem webpagesSimultaneous_agrees_with_webpagesSequential:
  assumes "\<forall>s. \<forall>url \<in> set urls. \<exists>r. fetch w s url = Inr r \<and> body r = page url"
  shows "snd (webpagesSimultaneous w urls order) = Inr (map (\<lambda>url. Some (page url)) urls)
       \<and> snd (webpagesSequential w urls) = Inr (map page urls)
       \<and> snd (webpagesSimultaneous w urls order)
           = map_sum id (map Some) (snd (webpagesSequential w urls))"
proof -
  have "snd (webpagesSimultaneous w urls order) = snd (Promise_all w urls order)"
    unfolding webpagesSimultaneous_def by (rule snd_bind_ok) (rule snd_start_all)
  then have simultaneous:
    "snd (webpagesSimultaneous w urls order) = Inr (map (\<lambda>url. Some (page url)) urls)"
    using Promise_all_ok [OF assms] by simp
  have sequential: "snd (webpagesSequential w urls) = Inr (map page urls)"
    using reduce_sequential_step_ok [OF assms, of "return []" "[]"]
    by (simp add: webpagesSequential_def return_def)
  show ?thesis using simultaneous sequential by (simp add: comp_def)
qed

theorem webpagesSimultaneous_agrees_with_webpagesSequential_witness:
  "snd (webpagesSimultaneous example_world URLS [2, 0, 1])
     = Inr [Some ''<html>https://example.com'', Some ''<html>https://tomfevrier.io'',
            Some ''<html>https://lesechos.fr'']
   \<and> snd (webpagesSequential example_world URLS)
     = Inr [''<html>https://example.com'', ''<html>https://tomfevrier.io'',
            ''<html>https://lesechos.fr'']"
  using webpagesSimultaneous_agrees_with_webpagesSequential
    [of URLS example_world example_body "[2, 0, 1]"]
  by (simp add: example_world_def example_body_def URLS_def)

section \<open>No thrown error is caught\<close>




















lemmas run_defs = main_def bind_def fetch_json_def fetch_text_def request_def settled_def
  parse_def console_log_def read_file_def webpagesSimultaneous_def Promise_all_def
  webpagesSequential_def sequential_step_def return_def URLS_def upt_rec

text \<open>A missing file ends the run at the read: the text is never parsed.\<close>

lemma main_on_example_world:
  "snd (main example_world [2, 0, 1]) = Inl FileAccessError
   \<and> last (fst (main example_world [2, 0, 1])) = ReadFile ''data-2017.json''
   \<and> length (filter (\<lambda>ev. case ev of Parse t \<Rightarrow> True | _ \<Rightarrow> False)
         (fst (main example_world [2, 0, 1]))) = 1"
  by (simp add: run_defs example_world_def example_body_def)

text \<open>
  A request of the sequential batch that is rejected, after the request for the same URL
  in the concurrent batch was answered, ends the run there: the third URL is not
  requested again and the file is not read.
\<close>

lemma main_on_world_rejected:
  "snd (main world_rejected [2, 0, 1]) = Inl RetrievalError
   \<and> last (fst (main world_rejected [2, 0, 1])) = Settled (Line142 1) ''https://tomfevrier.io''
   \<and> Request (Line142 2) ''https://lesechos.fr'' \<notin> set (fst (main world_rejected [2, 0, 1]))
   \<and> ReadFile ''data-2017.json'' \<notin> set (fst (main world_rejected [2, 0, 1]))"
  by (simp add: run_defs world_rejected_def example_body_def)




section \<open>The cross-year join\<close>

lemma find_js_Some: "find_js p es = Some e \<Longrightarrow> e \<in> set es \<and> p e"
  by (induction es) (auto split: if_splits)

lemma find_js_None: "find_js p es = None \<longleftrightarrow> (\<forall>e \<in> set es. \<not> p e)"
  by (induction es) auto

lemma map_of_put_own: "map_of (put_own acc k v) = (map_of acc)(k \<mapsto> v)"
  by (induction acc k v rule: put_own.induct) auto

lemma list_all_put_own:
  "list_all (\<lambda>p. P (snd p)) acc \<Longrightarrow> P v \<Longrightarrow> list_all (\<lambda>p. P (snd p)) (put_own acc k v)"
  by (induction acc k v rule: put_own.induct) auto

lemma tally_sum_put_own:
  "tally_sum (put_own acc k v) + count_of acc k = tally_sum acc + count_value v"
  by (induction acc k v rule: put_own.induct) (auto simp: tally_sum_def count_of_def)

lemma is_count_map_of:
  "list_all (\<lambda>p. is_count (snd p)) acc \<Longrightarrow> map_of acc k = Some v \<Longrightarrow> is_count v"
  by (induction acc) (auto split: if_splits)

lemma plain_not_proto: "inherited k = Undefined \<Longrightarrow> k \<noteq> ''__proto__''"
  by (auto simp: inherited_def)

text \<open>
  On a key that names no inherited property, and in a tally that holds counts only, the
  assignment \<^verbatim>\<open>acc[k] = (acc[k] || 0) + 1\<close> stores the old count plus one.
\<close>

lemma increment_plain_key:
  assumes "inherited k = Undefined" and "list_all (\<lambda>p. is_count (snd p)) acc"
  shows "set_prop acc k (plus_one (or_zero (get_prop acc k)))
       = put_own acc k (JNum (count_of acc k + 1))"
proof (cases "map_of acc k")
  case None
  then show ?thesis
    using assms(1) plain_not_proto [OF assms(1)]
    by (simp add: set_prop_def get_prop_def or_zero_def count_of_def)
next
  case (Some v)
  have "is_count v" using is_count_map_of [OF assms(2) Some] .
  then obtain n where "v = JNum n" "1 \<le> n" by (cases v) auto
  then show ?thesis
    using Some plain_not_proto [OF assms(1)]
    by (simp add: set_prop_def get_prop_def or_zero_def count_of_def)
qed

lemma join_step_unmatched:
  "sponsor2017 data2017 d = None \<Longrightarrow> join_step data2017 acc d = acc"
  by (simp add: join_step_def)

lemma join_step_matched:
  assumes "plain_candidates data2017" and "list_all (\<lambda>p. is_count (snd p)) acc"
    and "sponsor2017 data2017 d = Some s"
  shows "join_step data2017 acc d
       = put_own acc (candidate s) (JNum (count_of acc (candidate s) + 1))"
proof -
  have "s \<in> set data2017"
    using assms(3) find_js_Some unfolding sponsor2017_def by fastforce
  then have "inherited (candidate s) = Undefined"
    using assms(1) by (simp add: plain_candidates_def list_all_iff)
  then show ?thesis
    using assms(2,3) by (simp add: join_step_def Let_def increment_plain_key)
qed

lemma reduce_join_step:
  assumes "plain_candidates data2017"
  shows "list_all (\<lambda>p. is_count (snd p)) acc \<Longrightarrow>
     list_all (\<lambda>p. is_count (snd p)) (reduce (join_step data2017) acc ds)
   \<and> tally_sum (reduce (join_step data2017) acc ds)
       = tally_sum acc + length (filter (\<lambda>d. sponsor2017 data2017 d \<noteq> None) ds)
   \<and> count_of (reduce (join_step data2017) acc ds) k
       = count_of acc k
         + length (filter (\<lambda>d. map_option candidate (sponsor2017 data2017 d) = Some k) ds)"
proof (induction ds arbitrary: acc)
  case Nil
  then show ?case by simp
next
  case (Cons d ds)
  show ?case
  proof (cases "sponsor2017 data2017 d")
    case None
    then show ?thesis using Cons by (simp add: join_step_unmatched)
  next
    case (Some s)
    let ?acc = "put_own acc (candidate s) (JNum (count_of acc (candidate s) + 1))"
    have step: "join_step data2017 acc d = ?acc"
      using join_step_matched [OF assms Cons.prems Some] .
    have good: "list_all (\<lambda>p. is_count (snd p)) ?acc"
      using Cons.prems by (simp add: list_all_put_own)
    have sum: "tally_sum ?acc = tally_sum acc + 1"
      using tally_sum_put_own [of acc "candidate s" "JNum (count_of acc (candidate s) + 1)"]
      by simp
    have cnt: "count_of ?acc k = count_of acc k + (if candidate s = k then 1 else 0)"
      by (simp add: count_of_def map_of_put_own)
    show ?thesis
      using Cons.IH [OF good] step sum cnt Some by simp
  qed
qed

text \<open>
  What the join computes when no prior-year candidate is the name of a property that
  objects inherit: every entry is a count of at least 1, the counts add up to the number
  of matched current-year records, and the entry of a key is the number of matched
  records whose first prior-year match names that key (no entry when there is none).
\<close>

lemma crossYearJoin_plain_candidates:
  assumes "plain_candidates data2017"
  shows "list_all (\<lambda>p. is_count (snd p)) (crossYearJoin c data2022 data2017)
   \<and> tally_sum (crossYearJoin c data2022 data2017) = length (matched c data2022 data2017)
   \<and> map_of (crossYearJoin c data2022 data2017) k
       = (if matched_for k c data2022 data2017 = [] then None
          else Some (JNum (length (matched_for k c data2022 data2017))))"
proof -
  let ?t = "crossYearJoin c data2022 data2017"
  have r: "list_all (\<lambda>p. is_count (snd p)) ?t"
    "tally_sum ?t = length (matched c data2022 data2017)"
    "count_of ?t k = length (matched_for k c data2022 data2017)"
    using reduce_join_step [OF assms, of "[]" "filter (\<lambda>d. candidate d = c) data2022" k]
    by (simp_all add: crossYearJoin_def matched_def matched_for_def tally_sum_def count_of_def)
  have "map_of ?t k = (if matched_for k c data2022 data2017 = [] then None
          else Some (JNum (length (matched_for k c data2022 data2017))))"
  proof (cases "map_of ?t k")
    case None
    then show ?thesis using r(3) by (simp add: count_of_def)
  next
    case (Some v)
    have "is_count v" using is_count_map_of [OF r(1) Some] .
    then obtain n where "v = JNum n" "1 \<le> n" by (cases v) auto
    then show ?thesis using r(3) Some by (auto simp: count_of_def)
  qed
  with r show ?thesis by simp
qed

lemma crossYearJoin_example:
  "crossYearJoin ''zemmour'' example2022 example2017 = [(''fillon'', JNum 1)]"
  by (simp add: crossYearJoin_def example2022_def example2017_def join_step_def
      sponsor2017_def set_prop_def get_prop_def or_zero_def inherited_def
      Object_prototype_methods_def)

lemma crossYearJoin_empty: "crossYearJoin c [] data2017 = []"
  by (simp add: crossYearJoin_def)

text \<open>
  Claim C1. The claim says that a current-year record with a prior-year match increments
  the entry keyed by the candidate of that match, and creates it at 1 on its first
  occurrence. The code departs from it when that candidate is the name of a property that
  the accumulator inherits: for the one current-year record of the example and a prior-year
  match whose candidate is \<open>constructor\<close>, the first read of the entry yields the inherited
  function, which is truthy, and the entry is created as a string, not at 1.
\<close>

theorem crossYearJoin_constructor_key:
  "crossYearJoin ''zemmour'' example2022 constructor2017
     = [(''constructor'', JStr ''function Object() { [native code] }1'')]"
  by (simp add: crossYearJoin_def example2022_def constructor2017_def join_step_def
      sponsor2017_def set_prop_def get_prop_def or_zero_def inherited_def)

text \<open>
  Claim C10. The claim says that every value of the tally is an integer that is at least
  1 and that the values add up to the number of matched current-year records. The code
  departs from it on the same keys: with a prior-year candidate \<open>constructor\<close> the one
  value of the tally is not a count, and with a prior-year candidate \<open>__proto__\<close> the
  assignment is ignored, so that the tally stays empty although one record is matched.
\<close>

theorem crossYearJoin_inherited_keys_break_counts:
  "\<not> list_all (\<lambda>p. is_count (snd p)) (crossYearJoin ''zemmour'' example2022 constructor2017)
   \<and> tally_sum (crossYearJoin ''zemmour'' example2022 proto2017) = 0
   \<and> length (matched ''zemmour'' example2022 proto2017) = 1"
  by (simp add: crossYearJoin_def example2022_def constructor2017_def proto2017_def
      join_step_def sponsor2017_def set_prop_def get_prop_def or_zero_def inherited_def
      matched_def tally_sum_def)

end
